theory Spec2Isabelle
  imports Complex_Main
begin

section \<open>JavaScript values read by the license module\<close>

text \<open>
  The module \<^verbatim>\<open>src/lib/license.ts\<close> handles two kinds of untyped data: the parsed
  configuration file and the parsed body of the authority's response. Both come out of
  \<^verbatim>\<open>JSON.parse\<close>, so they are JSON values. A number is the value of the parsed double
  (an overflowing literal parses to an infinity); the module only tests numbers for
  truthiness and passes them on. A parsed object is its list of own properties.
  \<^verbatim>\<open>undefined\<close> is \<open>None\<close> of the option type.
\<close>

datatype number = Finite rat | PlusInfinity | MinusInfinity

datatype json =
    JNull
  | JBool bool
  | JNum number
  | JStr string
  | JArr "json list"
  | JObj "(string \<times> json) list"

type_synonym jsval = "json option"

text \<open>Thrown values are error objects; the module only reads their \<^verbatim>\<open>message\<close>.\<close>

datatype error_kind = Error | TypeError | SyntaxError | DOMException

datatype error = Thrown error_kind string

fun error_message :: "error \<Rightarrow> string" where
  "error_message (Thrown k m) = m"

text \<open>Truthiness, as tested by \<^verbatim>\<open>if (x)\<close>, \<^verbatim>\<open>!x\<close>, \<^verbatim>\<open>x && y\<close> and \<^verbatim>\<open>x ? a : b\<close>.\<close>

fun truthy :: "json \<Rightarrow> bool" where
  "truthy JNull = False"
| "truthy (JBool b) = b"
| "truthy (JNum n) = (n \<noteq> Finite 0)"
| "truthy (JStr s) = (s \<noteq> [])"
| "truthy (JArr xs) = True"
| "truthy (JObj kvs) = True"

definition is_truthy :: "jsval \<Rightarrow> bool" where
  "is_truthy v = (case v of None \<Rightarrow> False | Some j \<Rightarrow> truthy j)"

text \<open>
  Property access \<^verbatim>\<open>x.p\<close> on a parsed value, for the property names the module reads
  (none of them is defined on a prototype): reading a property of \<^verbatim>\<open>null\<close> throws a
  TypeError (with the message text of V8, the engine of Node.js), an object yields its own
  property or \<^verbatim>\<open>undefined\<close>, every other value yields \<^verbatim>\<open>undefined\<close>.
\<close>

definition null_property_error :: "string \<Rightarrow> error" where
  "null_property_error p =
     Thrown TypeError (''Cannot read properties of null (reading '' @ [CHR 0x27] @ p @ [CHR 0x27] @ '')'')"

fun get_prop :: "json \<Rightarrow> string \<Rightarrow> error + jsval" where
  "get_prop JNull p = Inl (null_property_error p)"
| "get_prop (JObj kvs) p = Inr (map_of kvs p)"
| "get_prop (JBool b) p = Inr None"
| "get_prop (JNum n) p = Inr None"
| "get_prop (JStr s) p = Inr None"
| "get_prop (JArr xs) p = Inr None"

text \<open>Optional chaining \<^verbatim>\<open>x?.p\<close>: \<^verbatim>\<open>undefined\<close> when \<^verbatim>\<open>x\<close> is \<^verbatim>\<open>undefined\<close> or \<^verbatim>\<open>null\<close>.\<close>

fun opt_prop :: "jsval \<Rightarrow> string \<Rightarrow> jsval" where
  "opt_prop None p = None"
| "opt_prop (Some JNull) p = None"
| "opt_prop (Some (JObj kvs)) p = map_of kvs p"
| "opt_prop (Some (JBool b)) p = None"
| "opt_prop (Some (JNum n)) p = None"
| "opt_prop (Some (JStr s)) p = None"
| "opt_prop (Some (JArr xs)) p = None"

section \<open>The environment of a call\<close>

text \<open>
  What a call reads from outside the module: the environment variable
  \<^verbatim>\<open>LICENSE_SERVER\<close>, the configuration file (absent, present but failing to read or
  parse, or parsed), the network, and the clock \<^verbatim>\<open>Date.now()\<close> in milliseconds.
\<close>

datatype file_state = Missing | Unreadable error | Parsed json

text \<open>
  A request is a POST to \<^verbatim>\<open>${licenseServer}<path>\<close> whose JSON body holds
  \<^verbatim>\<open>licenseKey\<close> and \<^verbatim>\<open>domain\<close>. The network answers a request with a rejected
  \<^verbatim>\<open>fetch\<close> (transport error, or the 10 second timeout), or with a response that has
  an \<^verbatim>\<open>ok\<close> flag and a body whose \<^verbatim>\<open>json()\<close> rejects or yields a value.
\<close>

record request =
  server :: json
  path :: string
  req_licenseKey :: json
  req_domain :: json

datatype body = BodyRejected error | BodyJson json

datatype fetch_outcome = FetchRejected error | Response bool body

record world =
  LICENSE_SERVER :: "string option"
  CONFIG_FILE :: file_state
  fetch :: "request \<Rightarrow> fetch_outcome"
  now :: int

text \<open>What a call does to the outside: it reads the configuration file, or sends a request.\<close>

datatype effect = ReadConfig | Fetch request

section \<open>Message texts\<close>

text \<open>The string literals of the source, as their UTF-8 bytes.\<close>

definition BUILT_IN_LICENSE_SERVER :: string where
  "BUILT_IN_LICENSE_SERVER = ''https://license.flixpilot.ovh''"

definition MSG_NOT_CONFIGURED :: string where
  "MSG_NOT_CONFIGURED =
     [CHR 0xE6, CHR 0x9C, CHR 0xAA, CHR 0xE9, CHR 0x85, CHR 0x8D, CHR 0xE7, CHR 0xBD, CHR 0xAE,
      CHR 0xE6, CHR 0x8E, CHR 0x88, CHR 0xE6, CHR 0x9D, CHR 0x83, CHR 0xE4, CHR 0xBF, CHR 0xA1,
      CHR 0xE6, CHR 0x81, CHR 0xAF, CHR 0xEF, CHR 0xBC, CHR 0x8C, CHR 0xE8, CHR 0xAF, CHR 0xB7,
      CHR 0xE5, CHR 0x9C, CHR 0xA8, CHR 0xE8, CHR 0xAE, CHR 0xBE, CHR 0xE7, CHR 0xBD, CHR 0xAE,
      CHR 0xE4, CHR 0xB8, CHR 0xAD, CHR 0xE5, CHR 0xA1, CHR 0xAB, CHR 0xE5, CHR 0x86, CHR 0x99,
      CHR 0xE6, CHR 0x8E, CHR 0x88, CHR 0xE6, CHR 0x9D, CHR 0x83, CHR 0xE5, CHR 0x9F, CHR 0x9F,
      CHR 0xE5, CHR 0x90, CHR 0x8D, CHR 0xE5, CHR 0x92, CHR 0x8C, CHR 0xE6, CHR 0x8E, CHR 0x88,
      CHR 0xE6, CHR 0x9D, CHR 0x83, CHR 0xE7, CHR 0xA0, CHR 0x81]"

definition MSG_SERVER_ABNORMAL :: string where
  "MSG_SERVER_ABNORMAL =
     [CHR 0xE6, CHR 0x8E, CHR 0x88, CHR 0xE6, CHR 0x9D, CHR 0x83, CHR 0xE6, CHR 0x9C, CHR 0x8D,
      CHR 0xE5, CHR 0x8A, CHR 0xA1, CHR 0xE5, CHR 0x99, CHR 0xA8, CHR 0xE5, CHR 0x93, CHR 0x8D,
      CHR 0xE5, CHR 0xBA, CHR 0x94, CHR 0xE5, CHR 0xBC, CHR 0x82, CHR 0xE5, CHR 0xB8, CHR 0xB8]"

definition MSG_VERIFY_FAILED :: string where
  "MSG_VERIFY_FAILED =
     [CHR 0xE6, CHR 0x8E, CHR 0x88, CHR 0xE6, CHR 0x9D, CHR 0x83, CHR 0xE9, CHR 0xAA, CHR 0x8C,
      CHR 0xE8, CHR 0xAF, CHR 0x81, CHR 0xE5, CHR 0xA4, CHR 0xB1, CHR 0xE8, CHR 0xB4, CHR 0xA5]
     @ '': ''"

definition MSG_NO_SERVER :: string where
  "MSG_NO_SERVER =
     [CHR 0xE6, CHR 0x9C, CHR 0xAA, CHR 0xE9, CHR 0x85, CHR 0x8D, CHR 0xE7, CHR 0xBD, CHR 0xAE,
      CHR 0xE6, CHR 0x8E, CHR 0x88, CHR 0xE6, CHR 0x9D, CHR 0x83, CHR 0xE6, CHR 0x9C, CHR 0x8D,
      CHR 0xE5, CHR 0x8A, CHR 0xA1, CHR 0xE5, CHR 0x99, CHR 0xA8, CHR 0xE5, CHR 0x9C, CHR 0xB0,
      CHR 0xE5, CHR 0x9D, CHR 0x80, CHR 0xEF, CHR 0xBC, CHR 0x8C, CHR 0xE8, CHR 0xAF, CHR 0xB7,
      CHR 0xE5, CHR 0x9C, CHR 0xA8]
     @ '' config.json ''
     @ [CHR 0xE6, CHR 0x88, CHR 0x96, CHR 0xE7, CHR 0x8E, CHR 0xAF, CHR 0xE5, CHR 0xA2, CHR 0x83,
        CHR 0xE5, CHR 0x8F, CHR 0x98, CHR 0xE9, CHR 0x87, CHR 0x8F, CHR 0xE4, CHR 0xB8, CHR 0xAD,
        CHR 0xE9, CHR 0x85, CHR 0x8D, CHR 0xE7, CHR 0xBD, CHR 0xAE]
     @ '' LICENSE_SERVER''"

definition MSG_ACTIVATE_FAILED :: string where
  "MSG_ACTIVATE_FAILED =
     [CHR 0xE6, CHR 0xBF, CHR 0x80, CHR 0xE6, CHR 0xB4, CHR 0xBB, CHR 0xE5, CHR 0xA4, CHR 0xB1,
      CHR 0xE8, CHR 0xB4, CHR 0xA5]
     @ '': ''"

definition MSG_LICENSE_VALID :: string where
  "MSG_LICENSE_VALID =
     [CHR 0xE6, CHR 0x8E, CHR 0x88, CHR 0xE6, CHR 0x9D, CHR 0x83, CHR 0xE6, CHR 0x9C, CHR 0x89,
      CHR 0xE6, CHR 0x95, CHR 0x88]"

definition MSG_REQUIRES_PRO :: string where
  "MSG_REQUIRES_PRO =
     [CHR 0xE6, CHR 0xAD, CHR 0xA4, CHR 0xE5, CHR 0x8A, CHR 0x9F, CHR 0xE8, CHR 0x83, CHR 0xBD,
      CHR 0xE9, CHR 0x9C, CHR 0x80, CHR 0xE8, CHR 0xA6, CHR 0x81]
     @ '' Pro ''
     @ [CHR 0xE7, CHR 0x89, CHR 0x88, CHR 0xE6, CHR 0x8E, CHR 0x88, CHR 0xE6, CHR 0x9D, CHR 0x83]"

section \<open>Reading the configuration\<close>

text \<open>
  \<^verbatim>\<open>getLicenseServer\<close> (lines 16 to 32): the environment variable when truthy (set
  and not empty), else the \<^verbatim>\<open>licenseServer\<close> property of the configuration file when
  truthy, else the built-in address. \<open>getLicenseServer_try\<close> is what the \<^verbatim>\<open>try\<close> block
  reads (lines 23 to 25), \<open>getLicenseServer_file\<close> is lines 22 to 31, where the
  \<^verbatim>\<open>catch\<close> swallows every error. The file is only touched when the environment
  variable does not decide.
\<close>

definition getLicenseServer_try :: "file_state \<Rightarrow> error + jsval" where
  "getLicenseServer_try f =
     (case f of
        Missing \<Rightarrow> Inr None
      | Unreadable e \<Rightarrow> Inl e
      | Parsed config \<Rightarrow> get_prop config ''licenseServer'')"

definition getLicenseServer_file :: "file_state \<Rightarrow> json" where
  "getLicenseServer_file f =
     (case getLicenseServer_try f of
        Inr (Some v) \<Rightarrow> if truthy v then v else JStr BUILT_IN_LICENSE_SERVER
      | Inr None \<Rightarrow> JStr BUILT_IN_LICENSE_SERVER
      | Inl e \<Rightarrow> JStr BUILT_IN_LICENSE_SERVER)"

definition getLicenseServer :: "world \<Rightarrow> json \<times> effect list" where
  "getLicenseServer w =
     (case LICENSE_SERVER w of
        Some v \<Rightarrow>
          if v \<noteq> [] then (JStr v, [])
          else (getLicenseServer_file (CONFIG_FILE w), [ReadConfig])
      | None \<Rightarrow> (getLicenseServer_file (CONFIG_FILE w), [ReadConfig]))"

text \<open>
  \<^verbatim>\<open>LicenseConfig\<close> (lines 48 to 51). The TypeScript types say string; at run time the
  fields hold whatever truthy values the file has.
\<close>

record LicenseConfig =
  domain :: json
  licenseKey :: json

text \<open>
  \<^verbatim>\<open>getLicenseConfig\<close> (lines 54 to 70): \<^verbatim>\<open>null\<close> unless the file exists, parses, and
  has truthy \<^verbatim>\<open>license.domain\<close> and \<^verbatim>\<open>license.licenseKey\<close>; every error is caught
  and gives \<^verbatim>\<open>null\<close>.
\<close>

definition getLicenseConfig_try :: "file_state \<Rightarrow> error + LicenseConfig option" where
  "getLicenseConfig_try f =
     (case f of
        Missing \<Rightarrow> Inr None
      | Unreadable e \<Rightarrow> Inl e
      | Parsed config \<Rightarrow>
          (case get_prop config ''license'' of
             Inl e \<Rightarrow> Inl e
           | Inr license \<Rightarrow>
               (case opt_prop license ''domain'' of
                  None \<Rightarrow> Inr None
                | Some d \<Rightarrow>
                    if \<not> truthy d then Inr None
                    else
                      (case opt_prop license ''licenseKey'' of
                         None \<Rightarrow> Inr None
                       | Some k \<Rightarrow>
                           if \<not> truthy k then Inr None
                           else Inr (Some \<lparr>domain = d, licenseKey = k\<rparr>)))))"

definition getLicenseConfig :: "world \<Rightarrow> LicenseConfig option \<times> effect list" where
  "getLicenseConfig w =
     (case getLicenseConfig_try (CONFIG_FILE w) of
        Inr r \<Rightarrow> (r, [ReadConfig])
      | Inl e \<Rightarrow> (None, [ReadConfig]))"

section \<open>The verification cache\<close>

text \<open>
  \<^verbatim>\<open>LicenseInfo\<close> (lines 39 to 46). A field the object does not have reads as
  \<^verbatim>\<open>undefined\<close>. The values copied from the response are whatever the response holds.
\<close>

record LicenseInfo =
  valid :: jsval
  message :: jsval
  type :: jsval
  maxUsers :: jsval
  expiresAt :: jsval
  customerName :: jsval

text \<open>The module state (lines 35 to 37): the cached result and the time it was stored.\<close>

record cache =
  licenseCache :: "LicenseInfo option"
  lastVerifyTime :: int

definition initial_cache :: cache where
  "initial_cache = \<lparr>licenseCache = None, lastVerifyTime = 0\<rparr>"

definition VERIFY_INTERVAL :: int where
  "VERIFY_INTERVAL = 1000 * 60 * 60"

text \<open>
  An exported function is \<^verbatim>\<open>async\<close>: its promise is fulfilled with a value (\<open>Inr\<close>) or
  rejected with a thrown error (\<open>Inl\<close>). A call also leaves a module state behind and has
  done a sequence of effects. Calls are taken one at a time: no other call runs while one
  awaits the network, so the cache read in the \<^verbatim>\<open>catch\<close> is the cache the call
  started with.
\<close>

record 'a outcome =
  returned :: "error + 'a"
  final :: cache
  effects :: "effect list"

text \<open>The request of \<^verbatim>\<open>verifyLicense\<close> (lines 96 to 106).\<close>

definition verify_request :: "json \<Rightarrow> LicenseConfig \<Rightarrow> request" where
  "verify_request licenseServer licenseConfig =
     \<lparr>server = licenseServer, path = ''/api/verify'',
      req_licenseKey = licenseKey licenseConfig, req_domain = domain licenseConfig\<rparr>"

text \<open>
  The \<^verbatim>\<open>try\<close> block of \<^verbatim>\<open>verifyLicense\<close> up to the construction of \<^verbatim>\<open>result\<close>
  (lines 96 to 121): \<open>Inl\<close> is the error that reaches the \<^verbatim>\<open>catch\<close>.
\<close>

definition verifyLicense_try :: "world \<Rightarrow> json \<Rightarrow> LicenseConfig \<Rightarrow> error + LicenseInfo" where
  "verifyLicense_try w licenseServer licenseConfig =
     (case fetch w (verify_request licenseServer licenseConfig) of
        FetchRejected e \<Rightarrow> Inl e
      | Response ok b \<Rightarrow>
          if \<not> ok then Inl (Thrown Error MSG_SERVER_ABNORMAL)
          else
            (case b of
               BodyRejected e \<Rightarrow> Inl e
             | BodyJson data \<Rightarrow>
                 (case get_prop data ''valid'' of
                    Inl e \<Rightarrow> Inl e
                  | Inr v \<Rightarrow>
                      (case get_prop data ''message'' of
                         Inl e \<Rightarrow> Inl e
                       | Inr m \<Rightarrow>
                           (case get_prop data ''license'' of
                              Inl e \<Rightarrow> Inl e
                            | Inr l \<Rightarrow>
                                Inr \<lparr>valid = v, message = m,
                                     type = opt_prop l ''type'',
                                     maxUsers = opt_prop l ''maxUsers'',
                                     expiresAt = opt_prop l ''expiresAt'',
                                     customerName = opt_prop l ''customerName''\<rparr>)))))"

text \<open>The two results that \<^verbatim>\<open>verifyLicense\<close> makes up itself (lines 84 to 87, 132 to 135).\<close>

definition not_configured_result :: LicenseInfo where
  "not_configured_result =
     \<lparr>valid = Some (JBool False), message = Some (JStr MSG_NOT_CONFIGURED),
      type = None, maxUsers = None, expiresAt = None, customerName = None\<rparr>"

definition failed_result :: "error \<Rightarrow> LicenseInfo" where
  "failed_result err =
     \<lparr>valid = Some (JBool False),
      message = Some (JStr (MSG_VERIFY_FAILED @ error_message err)),
      type = None, maxUsers = None, expiresAt = None, customerName = None\<rparr>"

text \<open>\<^verbatim>\<open>verifyLicense\<close> from line 80 on: what a call does once the cache check has not returned.\<close>

definition verifyLicense_refresh :: "world \<Rightarrow> cache \<Rightarrow> LicenseInfo outcome" where
  "verifyLicense_refresh w s =
     (case getLicenseConfig w of
        (None, fx1) \<Rightarrow>
          (let result = not_configured_result
           in \<lparr>returned = Inr result,
               final = \<lparr>licenseCache = Some result, lastVerifyTime = now w\<rparr>,
               effects = fx1\<rparr>)
      | (Some licenseConfig, fx1) \<Rightarrow>
          (case getLicenseServer w of
             (licenseServer, fx2) \<Rightarrow>
               (let fx = fx1 @ fx2 @ [Fetch (verify_request licenseServer licenseConfig)] in
                case verifyLicense_try w licenseServer licenseConfig of
                  Inr result \<Rightarrow>
                    \<lparr>returned = Inr result,
                     final = \<lparr>licenseCache = Some result, lastVerifyTime = now w\<rparr>,
                     effects = fx\<rparr>
                | Inl err \<Rightarrow>
                    (case licenseCache s of
                       Some cached \<Rightarrow> \<lparr>returned = Inr cached, final = s, effects = fx\<rparr>
                     | None \<Rightarrow>
                         (let result = failed_result err
                          in \<lparr>returned = Inr result,
                              final = \<lparr>licenseCache = Some result, lastVerifyTime = now w\<rparr>,
                              effects = fx\<rparr>)))))"

text \<open>\<^verbatim>\<open>verifyLicense\<close> (lines 73 to 140).\<close>

definition verifyLicense :: "bool \<Rightarrow> world \<Rightarrow> cache \<Rightarrow> LicenseInfo outcome" where
  "verifyLicense forceRefresh w s =
     (case licenseCache s of
        Some cached \<Rightarrow>
          if \<not> forceRefresh \<and> now w - lastVerifyTime s < VERIFY_INTERVAL
          then \<lparr>returned = Inr cached, final = s, effects = []\<rparr>
          else verifyLicense_refresh w s
      | None \<Rightarrow> verifyLicense_refresh w s)"

text \<open>\<^verbatim>\<open>clearLicenseCache\<close> (lines 243 to 246).\<close>

definition clearLicenseCache :: "cache \<Rightarrow> cache" where
  "clearLicenseCache s = \<lparr>licenseCache = None, lastVerifyTime = 0\<rparr>"

section \<open>Activation\<close>

text \<open>The value \<^verbatim>\<open>activateLicense\<close> resolves to (line 143).\<close>

record ActivationResult =
  success :: jsval
  activation_message :: jsval
  activation_license :: "LicenseInfo option"

definition activate_request :: "json \<Rightarrow> string \<Rightarrow> string \<Rightarrow> request" where
  "activate_request licenseServer domain' licenseKey' =
     \<lparr>server = licenseServer, path = ''/api/activate'',
      req_licenseKey = JStr licenseKey', req_domain = JStr domain'\<rparr>"

text \<open>
  The \<^verbatim>\<open>try\<close> block of \<^verbatim>\<open>activateLicense\<close> (lines 153 to 183). It does not look at
  \<^verbatim>\<open>response.ok\<close>. The module state is passed through, since the block assigns to it.
\<close>

definition activateLicense_try ::
    "world \<Rightarrow> json \<Rightarrow> string \<Rightarrow> string \<Rightarrow> cache \<Rightarrow> (error + ActivationResult) \<times> cache" where
  "activateLicense_try w licenseServer domain' licenseKey' s =
     (case fetch w (activate_request licenseServer domain' licenseKey') of
        FetchRejected e \<Rightarrow> (Inl e, s)
      | Response ok b \<Rightarrow>
          (case b of
             BodyRejected e \<Rightarrow> (Inl e, s)
           | BodyJson data \<Rightarrow>
               (case get_prop data ''success'' of
                  Inl e \<Rightarrow> (Inl e, s)
                | Inr succ \<Rightarrow>
                    (let s' = (if is_truthy succ
                               then \<lparr>licenseCache = None, lastVerifyTime = 0\<rparr> else s)
                     in case get_prop data ''message'' of
                          Inl e \<Rightarrow> (Inl e, s')
                        | Inr m \<Rightarrow>
                            if is_truthy succ
                            then
                              (case get_prop data ''license'' of
                                 Inl e \<Rightarrow> (Inl e, s')
                               | Inr l \<Rightarrow>
                                   (Inr \<lparr>success = succ, activation_message = m,
                                         activation_license = Some
                                           \<lparr>valid = Some (JBool True),
                                            message = Some (JStr MSG_LICENSE_VALID),
                                            type = opt_prop l ''type'',
                                            maxUsers = opt_prop l ''maxUsers'',
                                            expiresAt = opt_prop l ''expiresAt'',
                                            customerName = None\<rparr>\<rparr>, s'))
                            else
                              (Inr \<lparr>success = succ, activation_message = m, activation_license = None\<rparr>,
                               s')))))"

text \<open>\<^verbatim>\<open>activateLicense\<close> (lines 143 to 190).\<close>

definition activateLicense ::
    "string \<Rightarrow> string \<Rightarrow> world \<Rightarrow> cache \<Rightarrow> ActivationResult outcome" where
  "activateLicense domain' licenseKey' w s =
     (case getLicenseServer w of
        (licenseServer, fx1) \<Rightarrow>
          if \<not> truthy licenseServer
          then \<lparr>returned = Inr \<lparr>success = Some (JBool False),
                                activation_message = Some (JStr MSG_NO_SERVER),
                                activation_license = None\<rparr>,
                final = s, effects = fx1\<rparr>
          else
            (case activateLicense_try w licenseServer domain' licenseKey' s of
               (Inr r, s') \<Rightarrow>
                 \<lparr>returned = Inr r, final = s',
                  effects = fx1 @ [Fetch (activate_request licenseServer domain' licenseKey')]\<rparr>
             | (Inl err, s') \<Rightarrow>
                 \<lparr>returned = Inr \<lparr>success = Some (JBool False),
                                  activation_message =
                                    Some (JStr (MSG_ACTIVATE_FAILED @ error_message err)),
                                  activation_license = None\<rparr>,
                  final = s',
                  effects = fx1 @ [Fetch (activate_request licenseServer domain' licenseKey')]\<rparr>))"

section \<open>The entitlement gate\<close>

record FeatureAccess =
  allowed :: bool
  reason :: jsval

definition proFeatures :: "string list" where
  "proFeatures = [''moviepilot'', ''telegram'', ''advanced-stats'', ''multi-emby'']"

text \<open>
  \<^verbatim>\<open>checkFeatureAccess\<close> (lines 193 to 212). A rejection of the awaited
  \<^verbatim>\<open>verifyLicense()\<close> would reject this call too.
\<close>

definition checkFeatureAccess :: "string \<Rightarrow> world \<Rightarrow> cache \<Rightarrow> FeatureAccess outcome" where
  "checkFeatureAccess feature w s =
     (let v = verifyLicense False w s in
      case returned v of
        Inl e \<Rightarrow> \<lparr>returned = Inl e, final = final v, effects = effects v\<rparr>
      | Inr license \<Rightarrow>
          \<lparr>returned = Inr
             (if \<not> is_truthy (valid license)
              then \<lparr>allowed = False, reason = message license\<rparr>
              else if type license = Some (JStr ''lifetime'')
                      \<or> type license = Some (JStr ''enterprise'')
              then \<lparr>allowed = True, reason = None\<rparr>
              else if List.member proFeatures feature \<and> type license \<noteq> Some (JStr ''pro'')
              then \<lparr>allowed = False, reason = Some (JStr MSG_REQUIRES_PRO)\<rparr>
              else \<lparr>allowed = True, reason = None\<rparr>),
           final = final v, effects = effects v\<rparr>)"

text \<open>
  \<^verbatim>\<open>getLicenseStatus\<close> (lines 215 to 240). \<open>config\<close> is the \<^verbatim>\<open>domain\<close> of the object
  \<^verbatim>\<open>{ domain: config.domain }\<close>, or \<open>None\<close> for \<^verbatim>\<open>null\<close>.
\<close>

record LicenseStatus =
  configured :: bool
  status_valid :: jsval
  info :: "LicenseInfo option"
  config :: "json option"

definition getLicenseStatus :: "world \<Rightarrow> cache \<Rightarrow> LicenseStatus outcome" where
  "getLicenseStatus w s =
     (case getLicenseConfig w of
        (None, fx1) \<Rightarrow>
          \<lparr>returned = Inr \<lparr>configured = False, status_valid = Some (JBool False),
                           info = None, config = None\<rparr>,
           final = s, effects = fx1\<rparr>
      | (Some cfg, fx1) \<Rightarrow>
          (let v = verifyLicense False w s in
           case returned v of
             Inl e \<Rightarrow> \<lparr>returned = Inl e, final = final v, effects = fx1 @ effects v\<rparr>
           | Inr license \<Rightarrow>
               \<lparr>returned = Inr \<lparr>configured = True, status_valid = valid license,
                                info = Some license, config = Some (domain cfg)\<rparr>,
                final = final v, effects = fx1 @ effects v\<rparr>))"

section \<open>Successive calls and sample environments\<close>

text \<open>
  A caller that makes successive unforced \<^verbatim>\<open>verifyLicense()\<close> calls, each in the
  environment of its moment; the module state left by one call is the state of the next.
\<close>

fun verifyLicense_calls :: "world list \<Rightarrow> cache \<Rightarrow> LicenseInfo outcome list" where
  "verifyLicense_calls [] s = []"
| "verifyLicense_calls (w # ws) s =
     (let v = verifyLicense False w s in v # verifyLicense_calls ws (final v))"

text \<open>Concrete configurations, networks and environments, on which the theorems are run.\<close>

definition sample_config :: json where
  "sample_config =
     JObj [(''license'', JObj [(''domain'', JStr ''x.com''), (''licenseKey'', JStr ''K'')])]"

definition unreachable :: "request \<Rightarrow> fetch_outcome" where
  "unreachable r = FetchRejected (Thrown TypeError ''fetch failed'')"

definition answers :: "json \<Rightarrow> request \<Rightarrow> fetch_outcome" where
  "answers data r = Response True (BodyJson data)"

definition verify_reply :: "string \<Rightarrow> json" where
  "verify_reply tier =
     JObj [(''valid'', JBool True), (''message'', JStr ''ok''),
           (''license'', JObj [(''type'', JStr tier)])]"

definition granted :: "jsval \<Rightarrow> LicenseInfo" where
  "granted tier =
     \<lparr>valid = Some (JBool True), message = Some (JStr ''ok''), type = tier,
      maxUsers = None, expiresAt = None, customerName = None\<rparr>"

definition sample_world :: "file_state \<Rightarrow> (request \<Rightarrow> fetch_outcome) \<Rightarrow> int \<Rightarrow> world" where
  "sample_world f net t = \<lparr>LICENSE_SERVER = None, CONFIG_FILE = f, fetch = net, now = t\<rparr>"

section \<open>Facts about the model\<close>

lemmas model_defs =
  verifyLicense_def verifyLicense_refresh_def verifyLicense_try_def verify_request_def
  getLicenseConfig_def getLicenseConfig_try_def getLicenseServer_def getLicenseServer_file_def
  getLicenseServer_try_def
  activateLicense_def activateLicense_try_def activate_request_def clearLicenseCache_def
  checkFeatureAccess_def getLicenseStatus_def is_truthy_def VERIFY_INTERVAL_def
  initial_cache_def not_configured_result_def failed_result_def

lemmas sample_defs =
  sample_config_def unreachable_def answers_def verify_reply_def granted_def sample_world_def

lemma get_prop_Inl_iff: "get_prop j p = Inl e \<longleftrightarrow> j = JNull \<and> e = null_property_error p"
  by (cases j) auto

lemma get_prop_not_null: "get_prop j p = Inr v \<Longrightarrow> get_prop j q \<noteq> Inl e"
  by (cases j) auto

lemma getLicenseConfig_effects: "snd (getLicenseConfig w) = [ReadConfig]"
  by (simp add: getLicenseConfig_def split: sum.splits)

lemma getLicenseConfig_pair: "getLicenseConfig w = (fst (getLicenseConfig w), [ReadConfig])"
  by (metis getLicenseConfig_effects prod.collapse)

text \<open>The three ways in which the license configuration is absent.\<close>

lemma getLicenseConfig_None_iff:
  "fst (getLicenseConfig w) = None \<longleftrightarrow>
     CONFIG_FILE w = Missing
   \<or> (\<exists>e. CONFIG_FILE w = Unreadable e)
   \<or> (\<exists>c. CONFIG_FILE w = Parsed c \<and>
          (case get_prop c ''license'' of
             Inl e \<Rightarrow> True
           | Inr l \<Rightarrow> \<not> is_truthy (opt_prop l ''domain'')
                      \<or> \<not> is_truthy (opt_prop l ''licenseKey'')))"
  by (cases "CONFIG_FILE w")
     (auto simp: getLicenseConfig_def getLicenseConfig_try_def is_truthy_def
           split: sum.splits option.splits)

text \<open>What a refresh does in each of its four cases.\<close>

lemma verifyLicense_refresh_unconfigured:
  assumes "fst (getLicenseConfig w) = None"
  shows "verifyLicense_refresh w s =
           \<lparr>returned = Inr not_configured_result,
            final = \<lparr>licenseCache = Some not_configured_result, lastVerifyTime = now w\<rparr>,
            effects = [ReadConfig]\<rparr>"
proof -
  have "getLicenseConfig w = (None, [ReadConfig])"
    using assms getLicenseConfig_pair [of w] by simp
  then show ?thesis
    by (simp add: verifyLicense_refresh_def Let_def)
qed

lemma verifyLicense_refresh_success:
  assumes "fst (getLicenseConfig w) = Some cfg"
      and "verifyLicense_try w (fst (getLicenseServer w)) cfg = Inr result"
  shows "verifyLicense_refresh w s =
           \<lparr>returned = Inr result,
            final = \<lparr>licenseCache = Some result, lastVerifyTime = now w\<rparr>,
            effects = ReadConfig # snd (getLicenseServer w)
                      @ [Fetch (verify_request (fst (getLicenseServer w)) cfg)]\<rparr>"
proof -
  have "getLicenseConfig w = (Some cfg, [ReadConfig])"
    using assms(1) getLicenseConfig_pair [of w] by simp
  then show ?thesis
    using assms(2) by (cases "getLicenseServer w") (simp add: verifyLicense_refresh_def Let_def)
qed

lemma verifyLicense_refresh_failure_cached:
  assumes "fst (getLicenseConfig w) = Some cfg"
      and "verifyLicense_try w (fst (getLicenseServer w)) cfg = Inl err"
      and "licenseCache s = Some cached"
  shows "verifyLicense_refresh w s =
           \<lparr>returned = Inr cached, final = s,
            effects = ReadConfig # snd (getLicenseServer w)
                      @ [Fetch (verify_request (fst (getLicenseServer w)) cfg)]\<rparr>"
proof -
  have "getLicenseConfig w = (Some cfg, [ReadConfig])"
    using assms(1) getLicenseConfig_pair [of w] by simp
  then show ?thesis
    using assms(2,3) by (cases "getLicenseServer w") (simp add: verifyLicense_refresh_def Let_def)
qed

lemma verifyLicense_refresh_failure_empty:
  assumes "fst (getLicenseConfig w) = Some cfg"
      and "verifyLicense_try w (fst (getLicenseServer w)) cfg = Inl err"
      and "licenseCache s = None"
  shows "verifyLicense_refresh w s =
           \<lparr>returned = Inr (failed_result err),
            final = \<lparr>licenseCache = Some (failed_result err), lastVerifyTime = now w\<rparr>,
            effects = ReadConfig # snd (getLicenseServer w)
                      @ [Fetch (verify_request (fst (getLicenseServer w)) cfg)]\<rparr>"
proof -
  have "getLicenseConfig w = (Some cfg, [ReadConfig])"
    using assms(1) getLicenseConfig_pair [of w] by simp
  then show ?thesis
    using assms(2,3) by (cases "getLicenseServer w") (simp add: verifyLicense_refresh_def Let_def)
qed

text \<open>When the \<^verbatim>\<open>try\<close> block of \<^verbatim>\<open>verifyLicense\<close> throws.\<close>

lemma verifyLicense_try_Inl_iff:
  "verifyLicense_try w srv cfg = Inl err \<longleftrightarrow>
     fetch w (verify_request srv cfg) = FetchRejected err
   \<or> (\<exists>b. fetch w (verify_request srv cfg) = Response False b)
       \<and> err = Thrown Error MSG_SERVER_ABNORMAL
   \<or> fetch w (verify_request srv cfg) = Response True (BodyRejected err)
   \<or> fetch w (verify_request srv cfg) = Response True (BodyJson JNull)
       \<and> err = null_property_error ''valid''"
  by (auto simp: verifyLicense_try_def get_prop_Inl_iff dest: get_prop_not_null
           split: fetch_outcome.splits body.splits sum.splits)

lemma verifyLicense_try_throws:
  assumes "fetch w (verify_request srv cfg) = FetchRejected e
         \<or> fetch w (verify_request srv cfg) = Response False b
         \<or> fetch w (verify_request srv cfg) = Response True (BodyRejected e)
         \<or> fetch w (verify_request srv cfg) = Response True (BodyJson JNull)"
  shows "\<exists>err. verifyLicense_try w srv cfg = Inl err"
  using assms by (auto simp: verifyLicense_try_def)

text \<open>When a call refreshes.\<close>

lemma verifyLicense_forced: "verifyLicense True w s = verifyLicense_refresh w s"
  by (simp add: verifyLicense_def split: option.splits)

lemma verifyLicense_empty:
  "licenseCache s = None \<Longrightarrow> verifyLicense forceRefresh w s = verifyLicense_refresh w s"
  by (simp add: verifyLicense_def)

lemma verifyLicense_expired:
  "\<not> now w - lastVerifyTime s < VERIFY_INTERVAL \<Longrightarrow>
     verifyLicense forceRefresh w s = verifyLicense_refresh w s"
  by (simp add: verifyLicense_def split: option.splits)

lemma verifyLicense_fresh:
  "licenseCache s = Some cached \<Longrightarrow> now w - lastVerifyTime s < VERIFY_INTERVAL \<Longrightarrow>
     verifyLicense False w s = \<lparr>returned = Inr cached, final = s, effects = []\<rparr>"
  by (simp add: verifyLicense_def)

text \<open>No exported function rejects.\<close>

lemma verifyLicense_refresh_returns: "\<exists>r. returned (verifyLicense_refresh w s) = Inr r"
  by (simp add: verifyLicense_refresh_def Let_def split: prod.splits option.splits sum.splits)

lemma verifyLicense_returns: "\<exists>r. returned (verifyLicense forceRefresh w s) = Inr r"
  by (simp add: verifyLicense_def verifyLicense_refresh_returns split: option.splits)

lemma checkFeatureAccess_returns: "\<exists>r. returned (checkFeatureAccess feature w s) = Inr r"
  using verifyLicense_returns [of False w s]
  by (auto simp: checkFeatureAccess_def Let_def)

lemma getLicenseStatus_returns: "\<exists>r. returned (getLicenseStatus w s) = Inr r"
  using verifyLicense_returns [of False w s]
  by (auto simp: getLicenseStatus_def Let_def split: prod.splits option.splits)

lemma activateLicense_returns: "\<exists>r. returned (activateLicense d k w s) = Inr r"
  by (simp add: activateLicense_def split: prod.splits sum.splits)

text \<open>The decision of \<^verbatim>\<open>checkFeatureAccess\<close> on the result of its \<^verbatim>\<open>verifyLicense()\<close>.\<close>

lemma checkFeatureAccess_returned:
  assumes "returned (verifyLicense False w s) = Inr lic"
  shows "returned (checkFeatureAccess feature w s) = Inr
             (if \<not> is_truthy (valid lic)
              then \<lparr>allowed = False, reason = message lic\<rparr>
              else if type lic = Some (JStr ''lifetime'')
                      \<or> type lic = Some (JStr ''enterprise'')
              then \<lparr>allowed = True, reason = None\<rparr>
              else if List.member proFeatures feature \<and> type lic \<noteq> Some (JStr ''pro'')
              then \<lparr>allowed = False, reason = Some (JStr MSG_REQUIRES_PRO)\<rparr>
              else \<lparr>allowed = True, reason = None\<rparr>)"
  using assms by (simp add: checkFeatureAccess_def Let_def)

lemma member_proFeatures:
  "List.member proFeatures feature \<longleftrightarrow>
     feature \<in> {''moviepilot'', ''telegram'', ''advanced-stats'', ''multi-emby''}"
  by (auto simp: proFeatures_def)

text \<open>The module state after \<^verbatim>\<open>activateLicense\<close>.\<close>

lemma activateLicense_try_final:
  "snd (activateLicense_try w srv d k s) = s
   \<or> snd (activateLicense_try w srv d k s) = \<lparr>licenseCache = None, lastVerifyTime = 0\<rparr>
      \<and> (\<exists>r. fst (activateLicense_try w srv d k s) = Inr r \<and> is_truthy (success r))"
  by (auto simp: activateLicense_try_def Let_def dest: get_prop_not_null
           split: fetch_outcome.splits body.splits sum.splits)

lemma activateLicense_try_success:
  "fst (activateLicense_try w srv d k s) = Inr r \<Longrightarrow> is_truthy (success r) \<Longrightarrow>
     snd (activateLicense_try w srv d k s) = \<lparr>licenseCache = None, lastVerifyTime = 0\<rparr>"
  by (auto simp: activateLicense_try_def Let_def dest: get_prop_not_null
           split: fetch_outcome.splits body.splits sum.splits if_splits)

lemma activateLicense_final:
  "final (activateLicense d k w s) = s
   \<or> final (activateLicense d k w s) = \<lparr>licenseCache = None, lastVerifyTime = 0\<rparr>
      \<and> (\<exists>r. returned (activateLicense d k w s) = Inr r \<and> is_truthy (success r))"
proof (cases "getLicenseServer w")
  case (Pair srv fx)
  show ?thesis
  proof (cases "activateLicense_try w srv d k s")
    case inner: (Pair res s')
    from activateLicense_try_final [of w srv d k s] inner Pair show ?thesis
      by (cases res) (auto simp: activateLicense_def)
  qed
qed

lemma activateLicense_success_clears:
  assumes "returned (activateLicense d k w s) = Inr r" and "is_truthy (success r)"
  shows "final (activateLicense d k w s) = \<lparr>licenseCache = None, lastVerifyTime = 0\<rparr>"
proof (cases "getLicenseServer w")
  case (Pair srv fx)
  show ?thesis
  proof (cases "activateLicense_try w srv d k s")
    case inner: (Pair res s')
    from activateLicense_try_success [of w srv d k s] inner Pair assms show ?thesis
      by (cases res) (auto simp: activateLicense_def is_truthy_def split: if_splits)
  qed
qed

lemma verifyLicense_calls_fresh:
  assumes "licenseCache s = Some cached"
      and "\<forall>w \<in> set ws. now w - lastVerifyTime s < VERIFY_INTERVAL"
  shows "verifyLicense_calls ws s =
           map (\<lambda>w. \<lparr>returned = Inr cached, final = s, effects = []\<rparr>) ws"
  using assms by (induction ws) (simp_all add: verifyLicense_fresh Let_def)

lemma verifyLicense_refresh_configured_effects:
  assumes "fst (getLicenseConfig w) = Some cfg" and "licenseCache s = None"
  shows "effects (verifyLicense_refresh w s) =
           ReadConfig # snd (getLicenseServer w)
           @ [Fetch (verify_request (fst (getLicenseServer w)) cfg)]"
proof (cases "verifyLicense_try w (fst (getLicenseServer w)) cfg")
  case (Inl err)
  from verifyLicense_refresh_failure_empty [OF assms(1) Inl assms(2)] show ?thesis by simp
next
  case (Inr result)
  from verifyLicense_refresh_success [OF assms(1) Inr] show ?thesis by simp
qed

lemma verifyLicense_refresh_unreadable_as_missing:
  "verifyLicense_refresh (w\<lparr>CONFIG_FILE := Unreadable e\<rparr>) s
     = verifyLicense_refresh (w\<lparr>CONFIG_FILE := Missing\<rparr>) s"
  by (simp add: verifyLicense_refresh_def getLicenseConfig_def getLicenseConfig_try_def)

lemma verifyLicense_unreadable_as_missing:
  "verifyLicense forceRefresh (w\<lparr>CONFIG_FILE := Unreadable e\<rparr>) s
     = verifyLicense forceRefresh (w\<lparr>CONFIG_FILE := Missing\<rparr>) s"
  by (simp add: verifyLicense_def verifyLicense_refresh_unreadable_as_missing
        split: option.splits)

lemma checkFeatureAccess_unreadable_as_missing:
  "checkFeatureAccess feature (w\<lparr>CONFIG_FILE := Unreadable e\<rparr>) s
     = checkFeatureAccess feature (w\<lparr>CONFIG_FILE := Missing\<rparr>) s"
  by (simp add: checkFeatureAccess_def verifyLicense_unreadable_as_missing)

lemma getLicenseStatus_unreadable_as_missing:
  "getLicenseStatus (w\<lparr>CONFIG_FILE := Unreadable e\<rparr>) s
     = getLicenseStatus (w\<lparr>CONFIG_FILE := Missing\<rparr>) s"
  by (simp add: getLicenseStatus_def getLicenseConfig_def getLicenseConfig_try_def)

section \<open>The claims\<close>

text \<open>
  C1. When the license is configured, a cache entry exists and the verification
  exchange fails (the fetch rejects on a transport error or the timeout, the response is
  not ok, or its body cannot be read), any \<^verbatim>\<open>verifyLicense\<close> call, forced or not,
  returns the cached entry and leaves the cache entry and \<^verbatim>\<open>lastVerifyTime\<close> as they
  were.
\<close>

theorem verifyLicense_stale_on_failure:
  assumes "licenseCache s = Some cached"
      and "fst (getLicenseConfig w) = Some cfg"
      and "fetch w (verify_request (fst (getLicenseServer w)) cfg) = FetchRejected e
         \<or> fetch w (verify_request (fst (getLicenseServer w)) cfg) = Response False b
         \<or> fetch w (verify_request (fst (getLicenseServer w)) cfg) = Response True (BodyRejected e)
         \<or> fetch w (verify_request (fst (getLicenseServer w)) cfg) = Response True (BodyJson JNull)"
  shows "returned (verifyLicense forceRefresh w s) = Inr cached
       \<and> final (verifyLicense forceRefresh w s) = s"
proof -
  obtain err where "verifyLicense_try w (fst (getLicenseServer w)) cfg = Inl err"
    using verifyLicense_try_throws [OF assms(3)] by blast
  from verifyLicense_refresh_failure_cached [OF assms(2) this assms(1)]
  show ?thesis
    by (simp add: verifyLicense_def assms(1))
qed

theorem verifyLicense_stale_on_failure_witness:
  "licenseCache \<lparr>licenseCache = Some (granted (Some (JStr ''pro''))), lastVerifyTime = 1000\<rparr>
     = Some (granted (Some (JStr ''pro'')))
   \<and> fst (getLicenseConfig (sample_world (Parsed sample_config) unreachable 9000000))
     = Some \<lparr>domain = JStr ''x.com'', licenseKey = JStr ''K''\<rparr>
   \<and> returned (verifyLicense False (sample_world (Parsed sample_config) unreachable 9000000)
        \<lparr>licenseCache = Some (granted (Some (JStr ''pro''))), lastVerifyTime = 1000\<rparr>)
     = Inr (granted (Some (JStr ''pro'')))
   \<and> final (verifyLicense False (sample_world (Parsed sample_config) unreachable 9000000)
        \<lparr>licenseCache = Some (granted (Some (JStr ''pro''))), lastVerifyTime = 1000\<rparr>)
     = \<lparr>licenseCache = Some (granted (Some (JStr ''pro''))), lastVerifyTime = 1000\<rparr>"
proof -
  let ?w = "sample_world (Parsed sample_config) unreachable 9000000"
  let ?s = "\<lparr>licenseCache = Some (granted (Some (JStr ''pro''))), lastVerifyTime = 1000\<rparr>"
  let ?cfg = "\<lparr>domain = JStr ''x.com'', licenseKey = JStr ''K''\<rparr>"
  have h1: "licenseCache ?s = Some (granted (Some (JStr ''pro'')))"
    by simp
  have h2: "fst (getLicenseConfig ?w) = Some ?cfg"
    by (simp add: getLicenseConfig_def getLicenseConfig_try_def sample_defs)
  have h3: "fetch ?w (verify_request (fst (getLicenseServer ?w)) ?cfg)
              = FetchRejected (Thrown TypeError ''fetch failed'')"
    by (simp add: sample_defs)
  from verifyLicense_stale_on_failure [OF h1 h2 disjI1 [OF h3], of False] h1 h2
  show ?thesis by simp
qed

text \<open>
  C2. An unforced \<^verbatim>\<open>verifyLicense\<close> call with a cache entry stored less than
  \<^verbatim>\<open>VERIFY_INTERVAL\<close> (one hour) ago returns the cached result, leaves the state as it
  is and has no effect: no configuration read, no request. Hence every call of a sequence
  of unforced calls made within the interval returns that same result, with no effect.
\<close>

theorem verifyLicense_cached_within_interval:
  assumes "licenseCache s = Some cached"
      and "now w - lastVerifyTime s < VERIFY_INTERVAL"
      and "\<forall>w' \<in> set ws. now w' - lastVerifyTime s < VERIFY_INTERVAL"
  shows "VERIFY_INTERVAL = 3600000
       \<and> verifyLicense False w s = \<lparr>returned = Inr cached, final = s, effects = []\<rparr>
       \<and> verifyLicense_calls (w # ws) s =
           map (\<lambda>w'. \<lparr>returned = Inr cached, final = s, effects = []\<rparr>) (w # ws)"
proof (intro conjI)
  show "VERIFY_INTERVAL = 3600000"
    by (simp add: VERIFY_INTERVAL_def)
  show "verifyLicense False w s = \<lparr>returned = Inr cached, final = s, effects = []\<rparr>"
    by (rule verifyLicense_fresh [OF assms(1,2)])
  have "\<forall>w' \<in> set (w # ws). now w' - lastVerifyTime s < VERIFY_INTERVAL"
    using assms(2,3) by simp
  then show "verifyLicense_calls (w # ws) s =
        map (\<lambda>w'. \<lparr>returned = Inr cached, final = s, effects = []\<rparr>) (w # ws)"
    by (rule verifyLicense_calls_fresh [OF assms(1)])
qed

theorem verifyLicense_cached_within_interval_witness:
  "verifyLicense False (sample_world Missing unreachable 3600999)
     \<lparr>licenseCache = Some (granted (Some (JStr ''pro''))), lastVerifyTime = 1000\<rparr>
     = \<lparr>returned = Inr (granted (Some (JStr ''pro''))),
        final = \<lparr>licenseCache = Some (granted (Some (JStr ''pro''))), lastVerifyTime = 1000\<rparr>,
        effects = []\<rparr>
   \<and> verifyLicense_calls
       [sample_world Missing unreachable 3600999,
        sample_world (Parsed sample_config) (answers (verify_reply ''standard'')) 2000]
       \<lparr>licenseCache = Some (granted (Some (JStr ''pro''))), lastVerifyTime = 1000\<rparr>
     = [\<lparr>returned = Inr (granted (Some (JStr ''pro''))),
         final = \<lparr>licenseCache = Some (granted (Some (JStr ''pro''))), lastVerifyTime = 1000\<rparr>,
         effects = []\<rparr>,
        \<lparr>returned = Inr (granted (Some (JStr ''pro''))),
         final = \<lparr>licenseCache = Some (granted (Some (JStr ''pro''))), lastVerifyTime = 1000\<rparr>,
         effects = []\<rparr>]"
proof -
  let ?s = "\<lparr>licenseCache = Some (granted (Some (JStr ''pro''))), lastVerifyTime = 1000\<rparr>"
  let ?w = "sample_world Missing unreachable 3600999"
  let ?ws = "[sample_world (Parsed sample_config) (answers (verify_reply ''standard'')) 2000]"
  have h1: "licenseCache ?s = Some (granted (Some (JStr ''pro'')))"
    by simp
  have h2: "now ?w - lastVerifyTime ?s < VERIFY_INTERVAL"
    by (simp add: sample_world_def VERIFY_INTERVAL_def)
  have h3: "\<forall>w' \<in> set ?ws. now w' - lastVerifyTime ?s < VERIFY_INTERVAL"
    by (simp add: sample_world_def VERIFY_INTERVAL_def)
  from verifyLicense_cached_within_interval [OF h1 h2 h3]
  show ?thesis by (simp del: verifyLicense_calls.simps)
qed

text \<open>
  C3. When the \<^verbatim>\<open>verifyLicense()\<close> of \<^verbatim>\<open>checkFeatureAccess\<close> yields a valid result:
  for a feature of the restricted set, type lifetime, enterprise and pro allow, and type
  standard denies with the fixed "requires Pro" reason; with type lifetime or enterprise,
  every feature name is allowed.
\<close>

theorem checkFeatureAccess_tier_table:
  assumes "returned (verifyLicense False w s) = Inr lic"
      and "is_truthy (valid lic)"
  shows "(feature \<in> {''moviepilot'', ''telegram'', ''advanced-stats'', ''multi-emby''} \<longrightarrow>
            (type lic = Some (JStr ''lifetime'') \<longrightarrow>
               returned (checkFeatureAccess feature w s) = Inr \<lparr>allowed = True, reason = None\<rparr>)
          \<and> (type lic = Some (JStr ''enterprise'') \<longrightarrow>
               returned (checkFeatureAccess feature w s) = Inr \<lparr>allowed = True, reason = None\<rparr>)
          \<and> (type lic = Some (JStr ''pro'') \<longrightarrow>
               returned (checkFeatureAccess feature w s) = Inr \<lparr>allowed = True, reason = None\<rparr>)
          \<and> (type lic = Some (JStr ''standard'') \<longrightarrow>
               returned (checkFeatureAccess feature w s) =
                 Inr \<lparr>allowed = False, reason = Some (JStr MSG_REQUIRES_PRO)\<rparr>))
       \<and> (type lic = Some (JStr ''lifetime'') \<or> type lic = Some (JStr ''enterprise'') \<longrightarrow>
            (\<forall>anyFeature. returned (checkFeatureAccess anyFeature w s) =
                 Inr \<lparr>allowed = True, reason = None\<rparr>))"
  using assms unfolding checkFeatureAccess_returned [OF assms(1)] member_proFeatures by simp

theorem checkFeatureAccess_tier_table_witness:
  "returned (verifyLicense False
       (sample_world (Parsed sample_config) (answers (verify_reply ''standard'')) 1000)
       initial_cache) = Inr (granted (Some (JStr ''standard'')))
   \<and> is_truthy (valid (granted (Some (JStr ''standard''))))
   \<and> returned (checkFeatureAccess ''telegram''
       (sample_world (Parsed sample_config) (answers (verify_reply ''standard'')) 1000)
       initial_cache) = Inr \<lparr>allowed = False, reason = Some (JStr MSG_REQUIRES_PRO)\<rparr>
   \<and> returned (checkFeatureAccess ''telegram''
       (sample_world (Parsed sample_config) (answers (verify_reply ''pro'')) 1000)
       initial_cache) = Inr \<lparr>allowed = True, reason = None\<rparr>
   \<and> returned (checkFeatureAccess ''anything''
       (sample_world (Parsed sample_config) (answers (verify_reply ''lifetime'')) 1000)
       initial_cache) = Inr \<lparr>allowed = True, reason = None\<rparr>"
proof -
  have v: "returned (verifyLicense False
             (sample_world (Parsed sample_config) (answers (verify_reply tier)) 1000)
             initial_cache) = Inr (granted (Some (JStr tier)))" for tier
    by (simp add: model_defs sample_defs)
  have t: "is_truthy (valid (granted (Some (JStr tier))))" for tier
    by (simp add: is_truthy_def granted_def)
  from checkFeatureAccess_tier_table [OF v t, of "''telegram''" "''standard''"]
       checkFeatureAccess_tier_table [OF v t, of "''telegram''" "''pro''"]
       checkFeatureAccess_tier_table [OF v t, of _ "''lifetime''"] v t
  show ?thesis by (simp add: granted_def)
qed

text \<open>
  C4, as the code has it. \<^verbatim>\<open>verifyLicense\<close>, \<^verbatim>\<open>checkFeatureAccess\<close> and
  \<^verbatim>\<open>getLicenseStatus\<close> never reject: each call returns a result. A configuration file
  that fails to read or parse behaves exactly as a missing one, and a refreshing
  \<^verbatim>\<open>verifyLicense\<close> then returns the not-configured result with \<^verbatim>\<open>valid: false\<close>.
  A failed verification exchange (rejected fetch, response not ok, unparsable body) makes
  the \<^verbatim>\<open>try\<close> block throw; a refreshing call then returns the cached entry when there
  is one, and otherwise a result with \<^verbatim>\<open>valid: false\<close> and the message
  "verification failed: " followed by the message of the error.
\<close>

theorem entitlement_operations_total:
  "(\<exists>r. returned (verifyLicense forceRefresh w s) = Inr r)
   \<and> (\<exists>r. returned (checkFeatureAccess feature w s) = Inr r)
   \<and> (\<exists>r. returned (getLicenseStatus w s) = Inr r)
   \<and> verifyLicense forceRefresh (w\<lparr>CONFIG_FILE := Unreadable e\<rparr>) s
       = verifyLicense forceRefresh (w\<lparr>CONFIG_FILE := Missing\<rparr>) s
   \<and> checkFeatureAccess feature (w\<lparr>CONFIG_FILE := Unreadable e\<rparr>) s
       = checkFeatureAccess feature (w\<lparr>CONFIG_FILE := Missing\<rparr>) s
   \<and> getLicenseStatus (w\<lparr>CONFIG_FILE := Unreadable e\<rparr>) s
       = getLicenseStatus (w\<lparr>CONFIG_FILE := Missing\<rparr>) s
   \<and> returned (verifyLicense True (w\<lparr>CONFIG_FILE := Unreadable e\<rparr>) s)
       = Inr not_configured_result
   \<and> valid not_configured_result = Some (JBool False)
   \<and> (\<forall>cfg e' b.
         fetch w (verify_request (fst (getLicenseServer w)) cfg) = FetchRejected e'
       \<or> fetch w (verify_request (fst (getLicenseServer w)) cfg) = Response False b
       \<or> fetch w (verify_request (fst (getLicenseServer w)) cfg) = Response True (BodyRejected e')
       \<longrightarrow> (\<exists>err. verifyLicense_try w (fst (getLicenseServer w)) cfg = Inl err))
   \<and> (\<forall>cfg err. fst (getLicenseConfig w) = Some cfg
          \<and> verifyLicense_try w (fst (getLicenseServer w)) cfg = Inl err
       \<longrightarrow> returned (verifyLicense True w s)
             = Inr (case licenseCache s of None \<Rightarrow> failed_result err | Some cached \<Rightarrow> cached)
           \<and> valid (failed_result err) = Some (JBool False)
           \<and> message (failed_result err)
               = Some (JStr (MSG_VERIFY_FAILED @ error_message err)))"
proof (intro conjI allI impI)
  show "\<exists>r. returned (verifyLicense forceRefresh w s) = Inr r"
    by (rule verifyLicense_returns)
  show "\<exists>r. returned (checkFeatureAccess feature w s) = Inr r"
    by (rule checkFeatureAccess_returns)
  show "\<exists>r. returned (getLicenseStatus w s) = Inr r"
    by (rule getLicenseStatus_returns)
  show "verifyLicense forceRefresh (w\<lparr>CONFIG_FILE := Unreadable e\<rparr>) s
       = verifyLicense forceRefresh (w\<lparr>CONFIG_FILE := Missing\<rparr>) s"
    by (rule verifyLicense_unreadable_as_missing)
  show "checkFeatureAccess feature (w\<lparr>CONFIG_FILE := Unreadable e\<rparr>) s
       = checkFeatureAccess feature (w\<lparr>CONFIG_FILE := Missing\<rparr>) s"
    by (rule checkFeatureAccess_unreadable_as_missing)
  show "getLicenseStatus (w\<lparr>CONFIG_FILE := Unreadable e\<rparr>) s
       = getLicenseStatus (w\<lparr>CONFIG_FILE := Missing\<rparr>) s"
    by (rule getLicenseStatus_unreadable_as_missing)
  have "fst (getLicenseConfig (w\<lparr>CONFIG_FILE := Unreadable e\<rparr>)) = None"
    by (simp add: getLicenseConfig_def getLicenseConfig_try_def)
  from verifyLicense_refresh_unconfigured [OF this]
  show "returned (verifyLicense True (w\<lparr>CONFIG_FILE := Unreadable e\<rparr>) s)
          = Inr not_configured_result"
    by (simp add: verifyLicense_forced)
  show "valid not_configured_result = Some (JBool False)"
    by (simp add: not_configured_result_def)
next
  fix cfg e' b
  assume "fetch w (verify_request (fst (getLicenseServer w)) cfg) = FetchRejected e'
       \<or> fetch w (verify_request (fst (getLicenseServer w)) cfg) = Response False b
       \<or> fetch w (verify_request (fst (getLicenseServer w)) cfg) = Response True (BodyRejected e')"
  then show "\<exists>err. verifyLicense_try w (fst (getLicenseServer w)) cfg = Inl err"
    by (intro verifyLicense_try_throws [of w _ cfg e' b]) blast
next
  fix cfg err
  assume h: "fst (getLicenseConfig w) = Some cfg
          \<and> verifyLicense_try w (fst (getLicenseServer w)) cfg = Inl err"
  show "returned (verifyLicense True w s)
          = Inr (case licenseCache s of None \<Rightarrow> failed_result err | Some cached \<Rightarrow> cached)"
  proof (cases "licenseCache s")
    case None
    from verifyLicense_refresh_failure_empty [OF conjunct1 [OF h] conjunct2 [OF h] None]
    show ?thesis by (simp add: verifyLicense_forced None)
  next
    case (Some cached)
    from verifyLicense_refresh_failure_cached [OF conjunct1 [OF h] conjunct2 [OF h] Some]
    show ?thesis by (simp add: verifyLicense_forced Some)
  qed
  show "valid (failed_result err) = Some (JBool False)"
    by (simp add: failed_result_def)
  show "message (failed_result err) = Some (JStr (MSG_VERIFY_FAILED @ error_message err))"
    by (simp add: failed_result_def)
qed

theorem entitlement_operations_total_witness:
  "fst (getLicenseConfig (sample_world (Parsed sample_config) unreachable 1000))
     = Some \<lparr>domain = JStr ''x.com'', licenseKey = JStr ''K''\<rparr>
   \<and> verifyLicense_try (sample_world (Parsed sample_config) unreachable 1000)
        (fst (getLicenseServer (sample_world (Parsed sample_config) unreachable 1000)))
        \<lparr>domain = JStr ''x.com'', licenseKey = JStr ''K''\<rparr>
     = Inl (Thrown TypeError ''fetch failed'')
   \<and> returned (verifyLicense True (sample_world (Parsed sample_config) unreachable 1000)
        initial_cache)
     = Inr (failed_result (Thrown TypeError ''fetch failed''))
   \<and> returned (verifyLicense True (sample_world (Parsed sample_config) unreachable 1000)
        \<lparr>licenseCache = Some not_configured_result, lastVerifyTime = 7\<rparr>)
     = Inr not_configured_result"
proof -
  let ?w = "sample_world (Parsed sample_config) unreachable 1000"
  let ?cfg = "\<lparr>domain = JStr ''x.com'', licenseKey = JStr ''K''\<rparr>"
  let ?err = "Thrown TypeError ''fetch failed''"
  let ?s = "\<lparr>licenseCache = Some not_configured_result, lastVerifyTime = 7\<rparr>"
  have h1: "fst (getLicenseConfig ?w) = Some ?cfg"
    by (simp add: getLicenseConfig_def getLicenseConfig_try_def sample_defs)
  have h2: "verifyLicense_try ?w (fst (getLicenseServer ?w)) ?cfg = Inl ?err"
    by (simp add: verifyLicense_try_def sample_defs)
  from entitlement_operations_total [of _ ?w initial_cache]
  have "\<forall>cfg err. fst (getLicenseConfig ?w) = Some cfg
          \<and> verifyLicense_try ?w (fst (getLicenseServer ?w)) cfg = Inl err
       \<longrightarrow> returned (verifyLicense True ?w initial_cache)
             = Inr (case licenseCache initial_cache of
                      None \<Rightarrow> failed_result err | Some cached \<Rightarrow> cached)"
    by blast
  from this [rule_format, OF conjI, OF h1 h2]
  have a: "returned (verifyLicense True ?w initial_cache) = Inr (failed_result ?err)"
    by (simp add: initial_cache_def)
  from entitlement_operations_total [of _ ?w ?s]
  have "\<forall>cfg err. fst (getLicenseConfig ?w) = Some cfg
          \<and> verifyLicense_try ?w (fst (getLicenseServer ?w)) cfg = Inl err
       \<longrightarrow> returned (verifyLicense True ?w ?s)
             = Inr (case licenseCache ?s of
                      None \<Rightarrow> failed_result err | Some cached \<Rightarrow> cached)"
    by blast
  from this [rule_format, OF conjI, OF h1 h2]
  have b: "returned (verifyLicense True ?w ?s) = Inr not_configured_result"
    by simp
  from h1 h2 a b show ?thesis by blast
qed

theorem failure_with_cached_grant_counterexample:
  "fetch (sample_world (Parsed sample_config) unreachable 1000)
      (verify_request
         (fst (getLicenseServer (sample_world (Parsed sample_config) unreachable 1000)))
         \<lparr>domain = JStr ''x.com'', licenseKey = JStr ''K''\<rparr>)
     = FetchRejected (Thrown TypeError ''fetch failed'')
   \<and> returned (verifyLicense True (sample_world (Parsed sample_config) unreachable 1000)
        \<lparr>licenseCache = Some (granted (Some (JStr ''pro''))), lastVerifyTime = 0\<rparr>)
     = Inr (granted (Some (JStr ''pro'')))
   \<and> valid (granted (Some (JStr ''pro''))) = Some (JBool True)"
  by (simp add: model_defs sample_defs Let_def)

text \<open>
  C5. When no cache entry exists, the license is configured and the \<^verbatim>\<open>try\<close> block of
  \<^verbatim>\<open>verifyLicense\<close> throws, the call returns a result with \<^verbatim>\<open>valid: false\<close> and the
  message "verification failed: " followed by the message of the error, and stores it
  with the current time. \<^verbatim>\<open>checkFeatureAccess\<close> in that situation denies with that
  message as reason, and so does any \<^verbatim>\<open>checkFeatureAccess\<close> within the interval after
  the failed call.
\<close>

theorem verifyLicense_first_failure:
  assumes "licenseCache s = None"
      and "fst (getLicenseConfig w) = Some cfg"
      and "verifyLicense_try w (fst (getLicenseServer w)) cfg = Inl err"
  shows "returned (verifyLicense forceRefresh w s) = Inr (failed_result err)
       \<and> final (verifyLicense forceRefresh w s)
           = \<lparr>licenseCache = Some (failed_result err), lastVerifyTime = now w\<rparr>
       \<and> valid (failed_result err) = Some (JBool False)
       \<and> message (failed_result err) = Some (JStr (MSG_VERIFY_FAILED @ error_message err))
       \<and> returned (checkFeatureAccess feature w s)
           = Inr \<lparr>allowed = False,
                  reason = Some (JStr (MSG_VERIFY_FAILED @ error_message err))\<rparr>
       \<and> (\<forall>w'. now w' - now w < VERIFY_INTERVAL \<longrightarrow>
             returned (checkFeatureAccess feature w' (final (verifyLicense forceRefresh w s)))
               = Inr \<lparr>allowed = False,
                      reason = Some (JStr (MSG_VERIFY_FAILED @ error_message err))\<rparr>)"
proof -
  have r: "verifyLicense f w s =
             \<lparr>returned = Inr (failed_result err),
              final = \<lparr>licenseCache = Some (failed_result err), lastVerifyTime = now w\<rparr>,
              effects = ReadConfig # snd (getLicenseServer w)
                        @ [Fetch (verify_request (fst (getLicenseServer w)) cfg)]\<rparr>" for f
    using verifyLicense_refresh_failure_empty [OF assms(2,3,1)]
    by (simp add: verifyLicense_empty [OF assms(1)])
  have v: "valid (failed_result err) = Some (JBool False)"
          "message (failed_result err) = Some (JStr (MSG_VERIFY_FAILED @ error_message err))"
    by (simp_all add: failed_result_def)
  have c: "returned (checkFeatureAccess feature w s)
             = Inr \<lparr>allowed = False,
                    reason = Some (JStr (MSG_VERIFY_FAILED @ error_message err))\<rparr>"
    using checkFeatureAccess_returned [of w s "failed_result err" feature]
    by (simp add: r v is_truthy_def)
  have l: "returned (checkFeatureAccess feature w' (final (verifyLicense forceRefresh w s)))
             = Inr \<lparr>allowed = False,
                    reason = Some (JStr (MSG_VERIFY_FAILED @ error_message err))\<rparr>"
    if "now w' - now w < VERIFY_INTERVAL" for w'
  proof -
    let ?s' = "\<lparr>licenseCache = Some (failed_result err), lastVerifyTime = now w\<rparr>"
    have "verifyLicense False w' ?s'
            = \<lparr>returned = Inr (failed_result err), final = ?s', effects = []\<rparr>"
      using that by (intro verifyLicense_fresh) simp_all
    then show ?thesis
      using checkFeatureAccess_returned [of w' ?s' "failed_result err" feature]
      by (simp add: r v is_truthy_def)
  qed
  from r v c l show ?thesis by simp
qed

theorem verifyLicense_first_failure_witness:
  "licenseCache initial_cache = None
   \<and> fst (getLicenseConfig (sample_world (Parsed sample_config) unreachable 1000))
       = Some \<lparr>domain = JStr ''x.com'', licenseKey = JStr ''K''\<rparr>
   \<and> returned (verifyLicense False (sample_world (Parsed sample_config) unreachable 1000)
        initial_cache)
       = Inr \<lparr>valid = Some (JBool False),
              message = Some (JStr (MSG_VERIFY_FAILED @ ''fetch failed'')),
              type = None, maxUsers = None, expiresAt = None, customerName = None\<rparr>
   \<and> returned (checkFeatureAccess ''moviepilot''
        (sample_world (Parsed sample_config) unreachable 1000) initial_cache)
       = Inr \<lparr>allowed = False, reason = Some (JStr (MSG_VERIFY_FAILED @ ''fetch failed''))\<rparr>"
proof -
  let ?w = "sample_world (Parsed sample_config) unreachable 1000"
  let ?cfg = "\<lparr>domain = JStr ''x.com'', licenseKey = JStr ''K''\<rparr>"
  have h1: "licenseCache initial_cache = None"
    by (simp add: initial_cache_def)
  have h2: "fst (getLicenseConfig ?w) = Some ?cfg"
    by (simp add: getLicenseConfig_def getLicenseConfig_try_def sample_defs)
  have h3: "verifyLicense_try ?w (fst (getLicenseServer ?w)) ?cfg
              = Inl (Thrown TypeError ''fetch failed'')"
    by (simp add: verifyLicense_try_def sample_defs)
  from verifyLicense_first_failure [OF h1 h2 h3, of False "''moviepilot''"] h1 h2
  show ?thesis by (simp add: failed_result_def)
qed

text \<open>
  C6, as the code has it. When the license configuration is absent (file missing, file
  unreadable or unparsable, or no truthy \<^verbatim>\<open>license.domain\<close> and
  \<^verbatim>\<open>license.licenseKey\<close>): a \<^verbatim>\<open>verifyLicense\<close> call that refreshes (forced, no cache
  entry, or interval elapsed) returns the not-configured result with \<^verbatim>\<open>valid: false\<close>
  and stores it with the current time; \<^verbatim>\<open>checkFeatureAccess\<close> denies every feature
  name unless a cache entry with a truthy \<^verbatim>\<open>valid\<close> is still within the interval;
  \<^verbatim>\<open>getLicenseStatus\<close> returns configured false, valid false, and no info and config.
\<close>

theorem unconfigured_behaviour:
  assumes "fst (getLicenseConfig w) = None"
  shows "(forceRefresh \<or> licenseCache s = None \<or> \<not> now w - lastVerifyTime s < VERIFY_INTERVAL
            \<longrightarrow> verifyLicense forceRefresh w s =
                  \<lparr>returned = Inr not_configured_result,
                   final = \<lparr>licenseCache = Some not_configured_result,
                            lastVerifyTime = now w\<rparr>,
                   effects = [ReadConfig]\<rparr>)
       \<and> valid not_configured_result = Some (JBool False)
       \<and> message not_configured_result = Some (JStr MSG_NOT_CONFIGURED)
       \<and> (licenseCache s = None \<or> \<not> now w - lastVerifyTime s < VERIFY_INTERVAL
            \<longrightarrow> returned (checkFeatureAccess feature w s) =
                  Inr \<lparr>allowed = False, reason = Some (JStr MSG_NOT_CONFIGURED)\<rparr>)
       \<and> ((\<forall>c. licenseCache s = Some c \<and> now w - lastVerifyTime s < VERIFY_INTERVAL
                 \<longrightarrow> \<not> is_truthy (valid c))
            \<longrightarrow> (\<exists>r. returned (checkFeatureAccess feature w s) = Inr r \<and> \<not> allowed r))
       \<and> getLicenseStatus w s =
           \<lparr>returned = Inr \<lparr>configured = False, status_valid = Some (JBool False),
                            info = None, config = None\<rparr>,
            final = s, effects = [ReadConfig]\<rparr>"
proof -
  note r = verifyLicense_refresh_unconfigured [OF assms, of s]
  have a: "verifyLicense forceRefresh w s =
             \<lparr>returned = Inr not_configured_result,
              final = \<lparr>licenseCache = Some not_configured_result, lastVerifyTime = now w\<rparr>,
              effects = [ReadConfig]\<rparr>"
    if "forceRefresh \<or> licenseCache s = None \<or> \<not> now w - lastVerifyTime s < VERIFY_INTERVAL"
    using that r by (auto simp: verifyLicense_def split: option.splits)
  have v: "valid not_configured_result = Some (JBool False)"
          "message not_configured_result = Some (JStr MSG_NOT_CONFIGURED)"
    by (simp_all add: not_configured_result_def)
  have b: "returned (checkFeatureAccess feature w s) =
             Inr \<lparr>allowed = False, reason = Some (JStr MSG_NOT_CONFIGURED)\<rparr>"
    if "licenseCache s = None \<or> \<not> now w - lastVerifyTime s < VERIFY_INTERVAL"
  proof -
    have "returned (verifyLicense False w s) = Inr not_configured_result"
      using that r by (auto simp: verifyLicense_def split: option.splits)
    from checkFeatureAccess_returned [OF this] show ?thesis
      by (simp add: v is_truthy_def)
  qed
  have c: "\<exists>r. returned (checkFeatureAccess feature w s) = Inr r \<and> \<not> allowed r"
    if h: "\<forall>c. licenseCache s = Some c \<and> now w - lastVerifyTime s < VERIFY_INTERVAL
                 \<longrightarrow> \<not> is_truthy (valid c)"
  proof (cases "licenseCache s = None \<or> \<not> now w - lastVerifyTime s < VERIFY_INTERVAL")
    case True
    from b [OF True] show ?thesis by simp
  next
    case False
    then obtain cached where f: "licenseCache s = Some cached"
        "now w - lastVerifyTime s < VERIFY_INTERVAL"
      by auto
    with h have "\<not> is_truthy (valid cached)" by simp
    moreover have "returned (verifyLicense False w s) = Inr cached"
      using verifyLicense_fresh [OF f] by simp
    ultimately show ?thesis
      using checkFeatureAccess_returned [of w s cached feature] by simp
  qed
  have d: "getLicenseStatus w s =
             \<lparr>returned = Inr \<lparr>configured = False, status_valid = Some (JBool False),
                              info = None, config = None\<rparr>,
              final = s, effects = [ReadConfig]\<rparr>"
    using assms getLicenseConfig_pair [of w] by (simp add: getLicenseStatus_def)
  from a v b c d show ?thesis by blast
qed

theorem unconfigured_behaviour_witness:
  "fst (getLicenseConfig (sample_world Missing unreachable 1000)) = None
   \<and> fst (getLicenseConfig
        (sample_world (Unreadable (Thrown SyntaxError ''Unexpected token'')) unreachable 1000))
       = None
   \<and> fst (getLicenseConfig
        (sample_world (Parsed (JObj [(''license'', JObj [(''domain'', JStr ''x.com'')])]))
           unreachable 1000)) = None
   \<and> verifyLicense False (sample_world Missing unreachable 1000) initial_cache
       = \<lparr>returned = Inr not_configured_result,
          final = \<lparr>licenseCache = Some not_configured_result, lastVerifyTime = 1000\<rparr>,
          effects = [ReadConfig]\<rparr>
   \<and> returned (checkFeatureAccess ''tickets''
        (sample_world (Unreadable (Thrown SyntaxError ''Unexpected token'')) unreachable 1000)
        initial_cache)
       = Inr \<lparr>allowed = False, reason = Some (JStr MSG_NOT_CONFIGURED)\<rparr>
   \<and> returned (getLicenseStatus
        (sample_world (Parsed (JObj [(''license'', JObj [(''domain'', JStr ''x.com'')])]))
           unreachable 1000)
        \<lparr>licenseCache = Some (granted (Some (JStr ''pro''))), lastVerifyTime = 7\<rparr>)
       = Inr \<lparr>configured = False, status_valid = Some (JBool False),
              info = None, config = None\<rparr>"
proof -
  let ?w1 = "sample_world Missing unreachable 1000"
  let ?w2 = "sample_world (Unreadable (Thrown SyntaxError ''Unexpected token'')) unreachable 1000"
  let ?w3 = "sample_world (Parsed (JObj [(''license'', JObj [(''domain'', JStr ''x.com'')])]))
               unreachable 1000"
  have h1: "fst (getLicenseConfig ?w1) = None"
    by (simp add: getLicenseConfig_def getLicenseConfig_try_def sample_defs)
  have h2: "fst (getLicenseConfig ?w2) = None"
    by (simp add: getLicenseConfig_def getLicenseConfig_try_def sample_defs)
  have h3: "fst (getLicenseConfig ?w3) = None"
    by (simp add: getLicenseConfig_def getLicenseConfig_try_def sample_defs)
  have n: "now ?w1 = 1000" "licenseCache initial_cache = None"
    by (simp_all add: sample_world_def initial_cache_def)
  from unconfigured_behaviour [OF h1, of False initial_cache]
       unconfigured_behaviour [OF h2, of _ initial_cache "''tickets''"]
       unconfigured_behaviour [OF h3, of _
         "\<lparr>licenseCache = Some (granted (Some (JStr ''pro''))), lastVerifyTime = 7\<rparr>"]
       h1 h2 h3 n
  show ?thesis by simp
qed

theorem unconfigured_with_fresh_grant_counterexample:
  "fst (getLicenseConfig (sample_world Missing unreachable 1000)) = None
   \<and> returned (checkFeatureAccess ''moviepilot'' (sample_world Missing unreachable 1000)
        \<lparr>licenseCache = Some (granted (Some (JStr ''lifetime''))), lastVerifyTime = 0\<rparr>)
       = Inr \<lparr>allowed = True, reason = None\<rparr>"
  by (simp add: model_defs sample_defs)

text \<open>
  C7, as the code has it. \<^verbatim>\<open>clearLicenseCache\<close> resets the cache entry and the time to
  the empty state. The next \<^verbatim>\<open>verifyLicense\<close> call, whatever the clock says, does what
  a forced call does: it reads the configuration afresh and, when the license is
  configured, sends the verification request; when the license is not configured it
  sends no request. A successful \<^verbatim>\<open>activateLicense\<close> leaves the cleared state.
\<close>

theorem clearLicenseCache_forces_refresh:
  "clearLicenseCache s = \<lparr>licenseCache = None, lastVerifyTime = 0\<rparr>
   \<and> verifyLicense forceRefresh w (clearLicenseCache s)
       = verifyLicense True w (clearLicenseCache s)
   \<and> (\<exists>fx. effects (verifyLicense forceRefresh w (clearLicenseCache s)) = ReadConfig # fx)
   \<and> (\<forall>cfg. fst (getLicenseConfig w) = Some cfg \<longrightarrow>
         Fetch (verify_request (fst (getLicenseServer w)) cfg)
           \<in> set (effects (verifyLicense forceRefresh w (clearLicenseCache s))))
   \<and> (fst (getLicenseConfig w) = None \<longrightarrow>
         effects (verifyLicense forceRefresh w (clearLicenseCache s)) = [ReadConfig])
   \<and> (\<forall>r. returned (activateLicense d k w s) = Inr r \<and> is_truthy (success r) \<longrightarrow>
         final (activateLicense d k w s) = clearLicenseCache s)"
proof -
  let ?s = "clearLicenseCache s"
  have e: "licenseCache ?s = None"
    by (simp add: clearLicenseCache_def)
  have v: "verifyLicense f w ?s = verifyLicense_refresh w ?s" for f
    by (rule verifyLicense_empty [OF e])
  have c: "effects (verifyLicense_refresh w ?s) =
             ReadConfig # snd (getLicenseServer w)
             @ [Fetch (verify_request (fst (getLicenseServer w)) cfg)]"
    if "fst (getLicenseConfig w) = Some cfg" for cfg
    by (rule verifyLicense_refresh_configured_effects [OF that e])
  have u: "effects (verifyLicense_refresh w ?s) = [ReadConfig]"
    if "fst (getLicenseConfig w) = None"
    using verifyLicense_refresh_unconfigured [OF that, of ?s] by simp
  have x: "\<exists>fx. effects (verifyLicense_refresh w ?s) = ReadConfig # fx"
    using c u by (cases "fst (getLicenseConfig w)") auto
  have a: "final (activateLicense d k w s) = clearLicenseCache s"
    if "returned (activateLicense d k w s) = Inr r \<and> is_truthy (success r)" for r
    using that activateLicense_success_clears [of d k w s r]
    by (simp add: clearLicenseCache_def)
  show ?thesis
  proof (intro conjI allI impI)
    show "clearLicenseCache s = \<lparr>licenseCache = None, lastVerifyTime = 0\<rparr>"
      by (simp add: clearLicenseCache_def)
    show "verifyLicense forceRefresh w ?s = verifyLicense True w ?s"
      by (simp add: v)
    show "\<exists>fx. effects (verifyLicense forceRefresh w ?s) = ReadConfig # fx"
      using x by (simp add: v)
    show "Fetch (verify_request (fst (getLicenseServer w)) cfg)
            \<in> set (effects (verifyLicense forceRefresh w ?s))"
      if "fst (getLicenseConfig w) = Some cfg" for cfg
      using c [OF that] by (simp add: v)
    show "effects (verifyLicense forceRefresh w ?s) = [ReadConfig]"
      if "fst (getLicenseConfig w) = None"
      using u [OF that] by (simp add: v)
    show "final (activateLicense d k w s) = clearLicenseCache s"
      if "returned (activateLicense d k w s) = Inr r \<and> is_truthy (success r)" for r
      using that by (rule a)
  qed
qed

theorem clearLicenseCache_forces_refresh_witness:
  "fst (getLicenseConfig
      (sample_world (Parsed sample_config) (answers (verify_reply ''pro'')) 5)) 
     = Some \<lparr>domain = JStr ''x.com'', licenseKey = JStr ''K''\<rparr>
   \<and> Fetch \<lparr>server = JStr BUILT_IN_LICENSE_SERVER, path = ''/api/verify'',
            req_licenseKey = JStr ''K'', req_domain = JStr ''x.com''\<rparr>
       \<in> set (effects (verifyLicense False
            (sample_world (Parsed sample_config) (answers (verify_reply ''pro'')) 5)
            (clearLicenseCache
               \<lparr>licenseCache = Some not_configured_result, lastVerifyTime = 4\<rparr>)))
   \<and> final (activateLicense ''x.com'' ''K''
        (sample_world Missing (answers (JObj [(''success'', JBool True)])) 5)
        \<lparr>licenseCache = Some not_configured_result, lastVerifyTime = 4\<rparr>)
       = clearLicenseCache \<lparr>licenseCache = Some not_configured_result, lastVerifyTime = 4\<rparr>"
proof -
  let ?w = "sample_world (Parsed sample_config) (answers (verify_reply ''pro'')) 5"
  let ?w' = "sample_world Missing (answers (JObj [(''success'', JBool True)])) 5"
  let ?s = "\<lparr>licenseCache = Some not_configured_result, lastVerifyTime = 4\<rparr>"
  have h1: "fst (getLicenseConfig ?w) = Some \<lparr>domain = JStr ''x.com'', licenseKey = JStr ''K''\<rparr>"
    by (simp add: getLicenseConfig_def getLicenseConfig_try_def sample_defs)
  have h2: "fst (getLicenseServer ?w) = JStr BUILT_IN_LICENSE_SERVER"
    by (simp add: getLicenseServer_def getLicenseServer_file_def getLicenseServer_try_def
          sample_defs)
  have h3: "returned (activateLicense ''x.com'' ''K'' ?w' ?s)
              = Inr \<lparr>success = Some (JBool True), activation_message = None,
                     activation_license = Some
                       \<lparr>valid = Some (JBool True), message = Some (JStr MSG_LICENSE_VALID),
                        type = None, maxUsers = None, expiresAt = None,
                        customerName = None\<rparr>\<rparr>"
    by (simp add: model_defs sample_defs BUILT_IN_LICENSE_SERVER_def)
  from clearLicenseCache_forces_refresh [of ?s False ?w]
  have "\<forall>cfg. fst (getLicenseConfig ?w) = Some cfg \<longrightarrow>
          Fetch (verify_request (fst (getLicenseServer ?w)) cfg)
            \<in> set (effects (verifyLicense False ?w (clearLicenseCache ?s)))"
    by blast
  from this [rule_format, OF h1]
  have "Fetch \<lparr>server = JStr BUILT_IN_LICENSE_SERVER, path = ''/api/verify'',
            req_licenseKey = JStr ''K'', req_domain = JStr ''x.com''\<rparr>
       \<in> set (effects (verifyLicense False ?w (clearLicenseCache ?s)))"
    by (simp add: h2 verify_request_def)
  moreover
  from clearLicenseCache_forces_refresh [of ?s _ ?w' "''x.com''" "''K''"]
  have "\<forall>r. returned (activateLicense ''x.com'' ''K'' ?w' ?s) = Inr r \<and> is_truthy (success r)
          \<longrightarrow> final (activateLicense ''x.com'' ''K'' ?w' ?s) = clearLicenseCache ?s"
    by blast
  from this [rule_format, OF conjI, OF h3]
  have "final (activateLicense ''x.com'' ''K'' ?w' ?s) = clearLicenseCache ?s"
    by (simp add: is_truthy_def)
  ultimately show ?thesis
    using h1 by blast
qed

theorem invalidate_unconfigured_counterexample:
  "effects (verifyLicense False (sample_world Missing (answers (verify_reply ''pro'')) 5)
      (clearLicenseCache \<lparr>licenseCache = Some (granted (Some (JStr ''pro''))),
                          lastVerifyTime = 4\<rparr>))
     = [ReadConfig]"
  by (simp add: model_defs sample_defs Let_def)

text \<open>
  C8. \<^verbatim>\<open>getLicenseServer\<close> returns the environment variable \<^verbatim>\<open>LICENSE_SERVER\<close> when
  it is set and not empty; otherwise the \<^verbatim>\<open>licenseServer\<close> property of the parsed
  configuration when that is truthy (for a string: not empty); otherwise the built-in
  address. A missing, unreadable or unparsable configuration file gives the built-in
  address.
\<close>

theorem getLicenseServer_precedence:
  "(\<forall>v. LICENSE_SERVER w = Some v \<and> v \<noteq> [] \<longrightarrow> fst (getLicenseServer w) = JStr v)
   \<and> (LICENSE_SERVER w = None \<or> LICENSE_SERVER w = Some [] \<longrightarrow>
        (\<forall>c v. CONFIG_FILE w = Parsed c \<and> get_prop c ''licenseServer'' = Inr (Some v)
                \<and> truthy v \<longrightarrow> fst (getLicenseServer w) = v)
      \<and> (\<forall>c v. CONFIG_FILE w = Parsed c \<and> get_prop c ''licenseServer'' = Inr (Some (JStr v))
                \<longrightarrow> fst (getLicenseServer w) = JStr (if v \<noteq> [] then v else BUILT_IN_LICENSE_SERVER))
      \<and> (\<forall>c v. CONFIG_FILE w = Parsed c \<and> get_prop c ''licenseServer'' = Inr (Some v)
                \<and> \<not> truthy v \<longrightarrow> fst (getLicenseServer w) = JStr BUILT_IN_LICENSE_SERVER)
      \<and> (\<forall>c. CONFIG_FILE w = Parsed c \<and> get_prop c ''licenseServer'' = Inr None
                \<longrightarrow> fst (getLicenseServer w) = JStr BUILT_IN_LICENSE_SERVER)
      \<and> (\<forall>c e. CONFIG_FILE w = Parsed c \<and> get_prop c ''licenseServer'' = Inl e
                \<longrightarrow> fst (getLicenseServer w) = JStr BUILT_IN_LICENSE_SERVER)
      \<and> (CONFIG_FILE w = Missing \<longrightarrow> fst (getLicenseServer w) = JStr BUILT_IN_LICENSE_SERVER)
      \<and> (\<forall>e. CONFIG_FILE w = Unreadable e
                \<longrightarrow> fst (getLicenseServer w) = JStr BUILT_IN_LICENSE_SERVER))"
  by (auto simp: getLicenseServer_def getLicenseServer_file_def getLicenseServer_try_def)

theorem getLicenseServer_precedence_witness:
  "fst (getLicenseServer
      \<lparr>LICENSE_SERVER = Some ''http://env'',
       CONFIG_FILE = Parsed (JObj [(''licenseServer'', JStr ''http://file'')]),
       fetch = unreachable, now = 0\<rparr>) = JStr ''http://env''
   \<and> fst (getLicenseServer
      \<lparr>LICENSE_SERVER = Some [],
       CONFIG_FILE = Parsed (JObj [(''licenseServer'', JStr ''http://file'')]),
       fetch = unreachable, now = 0\<rparr>) = JStr ''http://file''
   \<and> fst (getLicenseServer
      \<lparr>LICENSE_SERVER = None,
       CONFIG_FILE = Parsed (JObj [(''licenseServer'', JStr [])]),
       fetch = unreachable, now = 0\<rparr>) = JStr ''https://license.flixpilot.ovh''
   \<and> fst (getLicenseServer
      \<lparr>LICENSE_SERVER = None,
       CONFIG_FILE = Unreadable (Thrown SyntaxError ''Unexpected token''),
       fetch = unreachable, now = 0\<rparr>) = JStr ''https://license.flixpilot.ovh''"
proof -
  let ?file = "Parsed (JObj [(''licenseServer'', JStr ''http://file'')])"
  let ?w1 = "\<lparr>LICENSE_SERVER = Some ''http://env'', CONFIG_FILE = ?file,
              fetch = unreachable, now = 0\<rparr>"
  let ?w2 = "\<lparr>LICENSE_SERVER = Some [], CONFIG_FILE = ?file, fetch = unreachable, now = 0\<rparr>"
  let ?w3 = "\<lparr>LICENSE_SERVER = None, CONFIG_FILE = Parsed (JObj [(''licenseServer'', JStr [])]),
              fetch = unreachable, now = 0\<rparr>"
  let ?w4 = "\<lparr>LICENSE_SERVER = None,
              CONFIG_FILE = Unreadable (Thrown SyntaxError ''Unexpected token''),
              fetch = unreachable, now = 0\<rparr>"
  from getLicenseServer_precedence [of ?w1] getLicenseServer_precedence [of ?w2]
       getLicenseServer_precedence [of ?w3] getLicenseServer_precedence [of ?w4]
  show ?thesis by (simp add: BUILT_IN_LICENSE_SERVER_def)
qed

text \<open>
  C9. An \<^verbatim>\<open>activateLicense\<close> call whose outcome is not a success leaves the cache
  entry and \<^verbatim>\<open>lastVerifyTime\<close> as they were: that is so when the fetch rejects
  (transport error, timeout), when the body cannot be parsed, when the body is
  \<^verbatim>\<open>null\<close>, and when its \<^verbatim>\<open>success\<close> is not truthy. Only a response whose
  \<^verbatim>\<open>success\<close> is truthy changes the state.
\<close>

theorem activateLicense_failure_keeps_cache:
  "(\<forall>r. returned (activateLicense d k w s) = Inr r \<and> \<not> is_truthy (success r)
        \<longrightarrow> final (activateLicense d k w s) = s)
   \<and> (final (activateLicense d k w s) \<noteq> s
        \<longrightarrow> (\<exists>r. returned (activateLicense d k w s) = Inr r \<and> is_truthy (success r)))
   \<and> (\<forall>e ok data v.
         fetch w (activate_request (fst (getLicenseServer w)) d k) = FetchRejected e
       \<or> fetch w (activate_request (fst (getLicenseServer w)) d k) = Response ok (BodyRejected e)
       \<or> fetch w (activate_request (fst (getLicenseServer w)) d k) = Response ok (BodyJson JNull)
       \<or> fetch w (activate_request (fst (getLicenseServer w)) d k) = Response ok (BodyJson data)
           \<and> get_prop data ''success'' = Inr v \<and> \<not> is_truthy v
       \<longrightarrow> final (activateLicense d k w s) = s
           \<and> (\<exists>r. returned (activateLicense d k w s) = Inr r \<and> \<not> is_truthy (success r)))"
proof (intro conjI allI impI)
  fix r assume "returned (activateLicense d k w s) = Inr r \<and> \<not> is_truthy (success r)"
  then show "final (activateLicense d k w s) = s"
    using activateLicense_final [of d k w s] by auto
next
  assume "final (activateLicense d k w s) \<noteq> s"
  then show "\<exists>r. returned (activateLicense d k w s) = Inr r \<and> is_truthy (success r)"
    using activateLicense_final [of d k w s] by auto
next
  fix e ok data v
  assume "fetch w (activate_request (fst (getLicenseServer w)) d k) = FetchRejected e
       \<or> fetch w (activate_request (fst (getLicenseServer w)) d k) = Response ok (BodyRejected e)
       \<or> fetch w (activate_request (fst (getLicenseServer w)) d k) = Response ok (BodyJson JNull)
       \<or> fetch w (activate_request (fst (getLicenseServer w)) d k) = Response ok (BodyJson data)
           \<and> get_prop data ''success'' = Inr v \<and> \<not> is_truthy v"
  then have "\<exists>r. returned (activateLicense d k w s) = Inr r \<and> \<not> is_truthy (success r)"
    by (cases "getLicenseServer w")
       (auto simp: activateLicense_def activateLicense_try_def is_truthy_def Let_def
             dest: get_prop_not_null split: sum.splits)
  then show "\<exists>r. returned (activateLicense d k w s) = Inr r \<and> \<not> is_truthy (success r)" .
  then show "final (activateLicense d k w s) = s"
    using activateLicense_final [of d k w s] by auto
qed

theorem activateLicense_failure_keeps_cache_witness:
  "final (activateLicense ''x.com'' ''K'' (sample_world Missing unreachable 1000)
      \<lparr>licenseCache = Some (granted (Some (JStr ''pro''))), lastVerifyTime = 7\<rparr>)
     = \<lparr>licenseCache = Some (granted (Some (JStr ''pro''))), lastVerifyTime = 7\<rparr>
   \<and> final (activateLicense ''x.com'' ''K''
      (sample_world Missing (answers (JObj [(''success'', JBool False)])) 1000)
      \<lparr>licenseCache = Some (granted (Some (JStr ''pro''))), lastVerifyTime = 7\<rparr>)
     = \<lparr>licenseCache = Some (granted (Some (JStr ''pro''))), lastVerifyTime = 7\<rparr>
   \<and> final (activateLicense ''x.com'' ''K''
      (sample_world Missing (answers (JObj [(''success'', JBool True)])) 1000)
      \<lparr>licenseCache = Some (granted (Some (JStr ''pro''))), lastVerifyTime = 7\<rparr>)
     = \<lparr>licenseCache = None, lastVerifyTime = 0\<rparr>"
proof -
  let ?s = "\<lparr>licenseCache = Some (granted (Some (JStr ''pro''))), lastVerifyTime = 7\<rparr>"
  let ?w1 = "sample_world Missing unreachable 1000"
  let ?w2 = "sample_world Missing (answers (JObj [(''success'', JBool False)])) 1000"
  let ?w3 = "sample_world Missing (answers (JObj [(''success'', JBool True)])) 1000"
  have h1: "fetch ?w1 (activate_request (fst (getLicenseServer ?w1)) ''x.com'' ''K'')
              = FetchRejected (Thrown TypeError ''fetch failed'')"
    by (simp add: sample_defs)
  have h2: "returned (activateLicense ''x.com'' ''K'' ?w2 ?s)
              = Inr \<lparr>success = Some (JBool False), activation_message = None,
                     activation_license = None\<rparr>"
    by (simp add: model_defs sample_defs BUILT_IN_LICENSE_SERVER_def)
  have h3: "final (activateLicense ''x.com'' ''K'' ?w3 ?s)
              = \<lparr>licenseCache = None, lastVerifyTime = 0\<rparr>"
    by (simp add: model_defs sample_defs BUILT_IN_LICENSE_SERVER_def)
  from activateLicense_failure_keeps_cache [of "''x.com''" "''K''" ?w1 ?s] h1
  have "final (activateLicense ''x.com'' ''K'' ?w1 ?s) = ?s"
    by blast
  moreover
  from activateLicense_failure_keeps_cache [of "''x.com''" "''K''" ?w2 ?s] h2
  have "final (activateLicense ''x.com'' ''K'' ?w2 ?s) = ?s"
    by (simp add: is_truthy_def)
  ultimately show ?thesis
    using h3 by simp
qed

text \<open>
  C10. With a valid result whose type is absent or is none of the four license types,
  \<^verbatim>\<open>checkFeatureAccess\<close> denies each feature of the restricted set with the
  "requires Pro" reason and allows every other feature name.
\<close>

theorem checkFeatureAccess_unknown_type:
  assumes "returned (verifyLicense False w s) = Inr lic"
      and "is_truthy (valid lic)"
      and "type lic \<notin> {Some (JStr ''standard''), Some (JStr ''pro''),
                         Some (JStr ''enterprise''), Some (JStr ''lifetime'')}"
  shows "returned (checkFeatureAccess feature w s) =
           Inr (if feature \<in> {''moviepilot'', ''telegram'', ''advanced-stats'', ''multi-emby''}
                then \<lparr>allowed = False, reason = Some (JStr MSG_REQUIRES_PRO)\<rparr>
                else \<lparr>allowed = True, reason = None\<rparr>)"
  using assms unfolding checkFeatureAccess_returned [OF assms(1)] member_proFeatures by simp

theorem checkFeatureAccess_unknown_type_witness:
  "returned (verifyLicense False
       (sample_world (Parsed sample_config)
          (answers (JObj [(''valid'', JBool True), (''message'', JStr ''ok'')])) 1000)
       initial_cache) = Inr (granted None)
   \<and> is_truthy (valid (granted None))
   \<and> returned (checkFeatureAccess ''multi-emby''
       (sample_world (Parsed sample_config)
          (answers (JObj [(''valid'', JBool True), (''message'', JStr ''ok'')])) 1000)
       initial_cache) = Inr \<lparr>allowed = False, reason = Some (JStr MSG_REQUIRES_PRO)\<rparr>
   \<and> returned (checkFeatureAccess ''tickets''
       (sample_world (Parsed sample_config)
          (answers (JObj [(''valid'', JBool True), (''message'', JStr ''ok'')])) 1000)
       initial_cache) = Inr \<lparr>allowed = True, reason = None\<rparr>"
proof -
  let ?w = "sample_world (Parsed sample_config)
              (answers (JObj [(''valid'', JBool True), (''message'', JStr ''ok'')])) 1000"
  have v: "returned (verifyLicense False ?w initial_cache) = Inr (granted None)"
    by (simp add: model_defs sample_defs)
  have t: "is_truthy (valid (granted None))"
    by (simp add: is_truthy_def granted_def)
  have u: "type (granted None) \<notin> {Some (JStr ''standard''), Some (JStr ''pro''),
                         Some (JStr ''enterprise''), Some (JStr ''lifetime'')}"
    by (simp add: granted_def)
  from checkFeatureAccess_unknown_type [OF v t u, of "''multi-emby''"]
       checkFeatureAccess_unknown_type [OF v t u, of "''tickets''"] v t
  show ?thesis by simp
qed

end
